theory Spec2Isabelle
  imports Complex_Main "HOL-Library.Sublist" "HOL-Library.AList"
begin

section \<open>Python text and list primitives used by the program\<close>

text \<open>
  A Python \<^verbatim>\<open>str\<close> is modelled as a HOL \<^typ>\<open>string\<close>, one \<^typ>\<open>char\<close> per character
  (characters in the range 0..255). An exception is modelled by the text that
  \<^verbatim>\<open>str(e)\<close> gives, since that text is all the program ever reads from an exception.
\<close>

type_synonym py_exn = string

text \<open>\<^verbatim>\<open>str.isspace\<close> on one character of the range 0..255.\<close>

definition py_isspace :: "char \<Rightarrow> bool" where
  "py_isspace c =
     (let n = (of_char c :: nat)
      in (9 \<le> n \<and> n \<le> 13) \<or> (28 \<le> n \<and> n \<le> 32) \<or> n = 133 \<or> n = 160)"

text \<open>\<^verbatim>\<open>s.strip()\<close>: leading and trailing whitespace removed.\<close>

definition py_strip :: "string \<Rightarrow> string" where
  "py_strip s = rev (dropWhile py_isspace (rev (dropWhile py_isspace s)))"

text \<open>\<^verbatim>\<open>sub in s\<close> on strings: \<open>sub\<close> occurs at some position of \<open>s\<close>.\<close>

fun py_in :: "'a list \<Rightarrow> 'a list \<Rightarrow> bool" where
  "py_in sub [] = (sub = [])"
| "py_in sub (c # cs) = (prefix sub (c # cs) \<or> py_in sub cs)"

text \<open>
  \<^verbatim>\<open>s.split(sep)\<close>: the scan goes left to right, \<open>cur\<close> is the piece being collected;
  at an occurrence of \<open>sep\<close> the piece is closed and the scan resumes after the occurrence.
  An empty separator raises \<^verbatim>\<open>ValueError\<close>.
\<close>

function split_from :: "'a list \<Rightarrow> 'a list \<Rightarrow> 'a list \<Rightarrow> 'a list list" where
  "split_from sep cur [] = [cur]"
| "split_from sep cur (c # cs) =
     (if sep \<noteq> [] \<and> prefix sep (c # cs)
      then cur # split_from sep [] (drop (length sep) (c # cs))
      else split_from sep (cur @ [c]) cs)"
  by pat_completeness auto
termination
  by (relation "measure (\<lambda>(sep, cur, s). length s)") auto

definition py_split :: "string \<Rightarrow> string \<Rightarrow> py_exn + string list" where
  "py_split s sep = (if sep = [] then Inl ''empty separator'' else Inr (split_from sep [] s))"

text \<open>\<^verbatim>\<open>xs[i]\<close>: a negative index counts from the end, an index out of range raises.\<close>

definition py_item :: "'a list \<Rightarrow> int \<Rightarrow> py_exn + 'a" where
  "py_item xs i =
     (let j = (if i < 0 then i + int (length xs) else i)
      in if 0 \<le> j \<and> j < int (length xs) then Inr (xs ! nat j)
         else Inl ''list index out of range'')"

text \<open>Sequencing of steps that may raise: the first exception ends the computation.\<close>

definition and_then :: "py_exn + 'a \<Rightarrow> ('a \<Rightarrow> py_exn + 'b) \<Rightarrow> py_exn + 'b" where
  "and_then r f = (case r of Inl e \<Rightarrow> Inl e | Inr x \<Rightarrow> f x)"

text \<open>\<^verbatim>\<open>s.lower()\<close> on characters of the range 0..255.\<close>

definition lower_char :: "char \<Rightarrow> char" where
  "lower_char c =
     (let n = (of_char c :: nat)
      in if (65 \<le> n \<and> n \<le> 90) \<or> (192 \<le> n \<and> n \<le> 222 \<and> n \<noteq> 215)
         then char_of (n + 32) else c)"

definition py_lower :: "string \<Rightarrow> string" where
  "py_lower s = map lower_char s"

text \<open>\<^verbatim>\<open>s.rsplit(c, 1)\<close> for a one-character separator: split at the last occurrence.\<close>

definition py_rsplit1 :: "string \<Rightarrow> char \<Rightarrow> string list" where
  "py_rsplit1 s c =
     (if c \<in> set s
      then [rev (drop 1 (dropWhile (\<lambda>x. x \<noteq> c) (rev s))), rev (takeWhile (\<lambda>x. x \<noteq> c) (rev s))]
      else [s])"

text \<open>\<^verbatim>\<open>os.path.basename\<close> and \<^verbatim>\<open>os.path.join\<close> of two components (POSIX).\<close>

definition basename :: "string \<Rightarrow> string" where
  "basename p = rev (takeWhile (\<lambda>x. x \<noteq> CHR ''/'') (rev p))"

definition path_join :: "string \<Rightarrow> string \<Rightarrow> string" where
  "path_join a b =
     (if prefix ''/'' b then b
      else if a = [] \<or> suffix ''/'' a then a @ b
      else a @ ''/'' @ b)"

text \<open>\<^verbatim>\<open>sep.join(xs)\<close>.\<close>

fun py_join :: "string \<Rightarrow> string list \<Rightarrow> string" where
  "py_join sep [] = []"
| "py_join sep [x] = x"
| "py_join sep (x # y # ys) = x @ sep @ py_join sep (y # ys)"

section \<open>Data model\<close>

text \<open>The entry stored per document name in \<^verbatim>\<open>loaded_documents\<close>.\<close>

record doc_entry =
  doc_text :: string
  doc_path :: string
  loaded_at :: string

text \<open>One chat message, the dictionary \<^verbatim>\<open>{"role": ..., "content": ...}\<close>.\<close>

record message =
  role :: string
  content :: string

text \<open>The arguments of one \<^verbatim>\<open>chat.completions.create\<close> call.\<close>

record request =
  messages :: "message list"
  model :: string
  temperature :: real
  max_tokens :: nat

text \<open>
  The object \<^verbatim>\<open>LegalDocumentSimplifier\<close>. The dictionary of documents keeps insertion
  order, as a Python dictionary does. \<open>requests\<close> records what has been submitted through
  \<^verbatim>\<open>self.client\<close>, in order; it is the only trace of a model call.
\<close>

record simplifier =
  conversation_history :: "message list"
  loaded_documents :: "(string \<times> doc_entry) list"
  current_analysis :: "string option"
  requests :: "request list"

text \<open>Values that \<^verbatim>\<open>json.loads\<close> returns; the float carrier is left open.\<close>

datatype 'f json =
    JNull
  | JBool bool
  | JInt int
  | JFloat 'f
  | JStr string
  | JList "'f json list"
  | JDict "(string \<times> 'f json) list"

text \<open>
  The model service: the outcome of \<^verbatim>\<open>create(...)\<close> followed by
  \<^verbatim>\<open>.choices[0].message.content\<close> for a request, either the exception raised or the text.
\<close>

type_synonym client = "request \<Rightarrow> py_exn + string"

definition create :: "client \<Rightarrow> request \<Rightarrow> simplifier \<Rightarrow> (py_exn + string) \<times> simplifier" where
  "create cl req s = (cl req, s\<lparr>requests := requests s @ [req]\<rparr>)"

text \<open>A Python truth test on an optional string: \<^verbatim>\<open>None\<close> and the empty string are false.\<close>

definition truthy :: "string option \<Rightarrow> bool" where
  "truthy x = (case x of None \<Rightarrow> False | Some v \<Rightarrow> v \<noteq> [])"

section \<open>Document loader (\<^verbatim>\<open>legal_simplifier.py\<close>)\<close>

text \<open>
  What lies outside the program: the content of the files as the three libraries read it,
  the clock, and the two helpers of the upload transport. A PDF is the list of its pages,
  each giving its text or raising on extraction.
\<close>

record environment =
  pdf_pages :: "string \<Rightarrow> py_exn + (py_exn + string) list"
  docx_paragraphs :: "string \<Rightarrow> py_exn + string list"
  txt_read :: "string \<Rightarrow> py_exn + string"
  now :: string
  secure_filename :: "string \<Rightarrow> string"
  save_file :: "string \<Rightarrow> string \<Rightarrow> py_exn option"

fun extract_pages :: "string \<Rightarrow> (py_exn + string) list \<Rightarrow> py_exn + string" where
  "extract_pages acc [] = Inr acc"
| "extract_pages acc (p # ps) =
     (case p of Inl e \<Rightarrow> Inl e | Inr t \<Rightarrow> extract_pages (acc @ t) ps)"

definition read_pdf :: "environment \<Rightarrow> string \<Rightarrow> string" where
  "read_pdf env file_path =
     (case and_then (pdf_pages env file_path) (extract_pages []) of
        Inl e \<Rightarrow> ''Error reading PDF: '' @ e
      | Inr t \<Rightarrow> t)"

definition read_docx :: "environment \<Rightarrow> string \<Rightarrow> string" where
  "read_docx env file_path =
     (case docx_paragraphs env file_path of
        Inl e \<Rightarrow> ''Error reading DOCX: '' @ e
      | Inr ps \<Rightarrow> py_join ''\<newline>'' ps)"

definition read_txt :: "environment \<Rightarrow> string \<Rightarrow> string" where
  "read_txt env file_path =
     (case txt_read env file_path of
        Inl e \<Rightarrow> ''Error reading TXT: '' @ e
      | Inr t \<Rightarrow> t)"

definition UNSUPPORTED :: string where
  "UNSUPPORTED = ''Unsupported file format. Please use PDF, DOCX, or TXT files.''"

definition store_document :: "string \<Rightarrow> string \<Rightarrow> string option \<Rightarrow> environment \<Rightarrow> simplifier
    \<Rightarrow> string \<times> simplifier" where
  "store_document t file_path doc_name env s =
     (let name = (if truthy doc_name then the doc_name else basename file_path)
      in (t, s\<lparr>loaded_documents :=
                 AList.update name \<lparr>doc_text = t, doc_path = file_path, loaded_at = now env\<rparr>
                   (loaded_documents s)\<rparr>))"

text \<open>
  \<^verbatim>\<open>load_document\<close>. Nothing in it is inside a \<^verbatim>\<open>try\<close>, so an exception of the
  extension computation would leave the function: the result is a sum.
\<close>

definition file_extension :: "string \<Rightarrow> py_exn + string" where
  "file_extension file_path =
     and_then (py_split (py_lower file_path) ''.'') (\<lambda>parts. py_item parts (- 1))"

definition load_document :: "environment \<Rightarrow> string \<Rightarrow> string option \<Rightarrow> simplifier
    \<Rightarrow> py_exn + string \<times> simplifier" where
  "load_document env file_path doc_name s =
     and_then (file_extension file_path) (\<lambda>extension.
       if extension = ''pdf''
         then Inr (store_document (read_pdf env file_path) file_path doc_name env s)
       else if extension = ''docx''
         then Inr (store_document (read_docx env file_path) file_path doc_name env s)
       else if extension = ''txt''
         then Inr (store_document (read_txt env file_path) file_path doc_name env s)
       else Inr (UNSUPPORTED, s))"

section \<open>Prompt builders and tasks (\<^verbatim>\<open>legal_simplifier.py\<close>)\<close>

definition system_message :: "string \<Rightarrow> message" where
  "system_message t = \<lparr>role = ''system'', content = t\<rparr>"

definition user_message :: "string \<Rightarrow> message" where
  "user_message t = \<lparr>role = ''user'', content = t\<rparr>"

definition assistant_message :: "string \<Rightarrow> message" where
  "assistant_message t = \<lparr>role = ''assistant'', content = t\<rparr>"

subsection \<open>Concerns\<close>

definition concerns_head :: string where
  \<open>concerns_head =
     ''You are a legal expert analyzing documents for potential concerns. \<newline>'' @
     ''\<newline>'' @
     ''Analyze this legal document and identify concerning clauses or red flags. For each concerning clause:\<newline>'' @
     ''1. Quote the clause (keep it brief)\<newline>'' @
     ''2. Explain why it's concerning in simple terms\<newline>'' @
     ''3. Rate the severity (LOW, MEDIUM, HIGH)\<newline>'' @
     ''\<newline>'' @
     ''Return ONLY a JSON array with this exact structure:\<newline>'' @
     ''[\<newline>'' @
     ''  {\<newline>'' @
     ''    "clause": "brief quote of concerning text",\<newline>'' @
     ''    "concern": "explanation in plain language",\<newline>'' @
     ''    "severity": "HIGH/MEDIUM/LOW",\<newline>'' @
     ''    "recommendation": "what the reader should do"\<newline>'' @
     ''  }\<newline>'' @
     '']\<newline>'' @
     ''\<newline>'' @
     ''Legal Text:\<newline>''\<close>

definition concerns_tail :: string where
  \<open>concerns_tail =
     ''\<newline>'' @
     ''\<newline>'' @
     ''Return ONLY valid JSON, no other text.''\<close>

definition concerns_prompt :: "string \<Rightarrow> string" where
  "concerns_prompt legal_text = concerns_head @ take 4000 legal_text @ concerns_tail"

definition concerns_request :: "string \<Rightarrow> request" where
  "concerns_request legal_text =
     \<lparr>messages =
        [system_message
           ''You are a legal expert who identifies concerning clauses. Return only valid JSON.'',
         user_message (concerns_prompt legal_text)],
      model = ''llama-3.3-70b-versatile'', temperature = 0.5, max_tokens = 2000\<rparr>"

text \<open>Lines 126 to 130: the region of the model text handed to \<^verbatim>\<open>json.loads\<close>.\<close>

definition fenced_region :: "string \<Rightarrow> py_exn + string" where
  \<open>fenced_region raw =
     (let result = py_strip raw
      in if py_in ''```json'' result then
           and_then (py_split result ''```json'') (\<lambda>parts.
           and_then (py_item parts 1) (\<lambda>after.
           and_then (py_split after ''```'') (\<lambda>inner.
           and_then (py_item inner 0) (\<lambda>r. Inr (py_strip r)))))
         else if py_in ''```'' result then
           and_then (py_split result ''```'') (\<lambda>parts.
           and_then (py_item parts 1) (\<lambda>after.
           and_then (py_split after ''```'') (\<lambda>inner.
           and_then (py_item inner 0) (\<lambda>r. Inr (py_strip r)))))
         else Inr result)\<close>

text \<open>
  \<^verbatim>\<open>json.loads\<close> is a parameter. Every exception of the \<^verbatim>\<open>try\<close> block ends in the same
  handler, which returns the empty list (the message it prints is not part of the model).
\<close>

definition interpret_concerns :: "(string \<Rightarrow> py_exn + 'f json) \<Rightarrow> string \<Rightarrow> py_exn + 'f json" where
  "interpret_concerns loads raw = and_then (fenced_region raw) loads"

definition highlight_concerning_clauses :: "client \<Rightarrow> (string \<Rightarrow> py_exn + 'f json) \<Rightarrow> string
    \<Rightarrow> simplifier \<Rightarrow> 'f json \<times> simplifier" where
  "highlight_concerning_clauses cl loads legal_text s =
     (let (r, s') = create cl (concerns_request legal_text) s
      in case and_then r (interpret_concerns loads) of
           Inl e \<Rightarrow> (JList [], s')
         | Inr v \<Rightarrow> (v, s'))"

subsection \<open>Simplify\<close>

definition simplify_query_head :: string where
  \<open>simplify_query_head =
     ''You are a legal document simplifier. A user has provided this legal text and has a specific question about it.\<newline>'' @
     ''\<newline>'' @
     ''Legal Text:\<newline>''\<close>

definition simplify_query_tail :: "string \<Rightarrow> string" where
  \<open>simplify_query_tail query =
     ''\<newline>'' @
     ''\<newline>'' @
     ''User Question: '' @ query @
     ''\<newline>'' @
     ''\<newline>'' @
     ''Please answer their question in simple, plain language that anyone can understand. Avoid legal jargon and explain any complex terms you must use.''\<close>

definition simplify_head :: string where
  \<open>simplify_head =
     ''You are a legal document simplifier. Your job is to break down complex legal language into simple, easy-to-understand terms.\<newline>'' @
     ''\<newline>'' @
     ''Please analyze this legal text and provide:\<newline>'' @
     ''1. A brief summary (2-3 sentences)\<newline>'' @
     ''2. Key points in plain language (numbered list)\<newline>'' @
     ''3. Important dates or deadlines mentioned\<newline>'' @
     ''4. Your obligations and rights\<newline>'' @
     ''\<newline>'' @
     ''Legal Text:\<newline>''\<close>

definition simplify_tail :: string where
  \<open>simplify_tail =
     ''\<newline>'' @
     ''\<newline>'' @
     ''Remember to use everyday language that anyone can understand.''\<close>

definition simplify_prompt :: "string \<Rightarrow> string option \<Rightarrow> string" where
  "simplify_prompt legal_text query =
     (if truthy query
      then simplify_query_head @ take 3000 legal_text @ simplify_query_tail (the query)
      else simplify_head @ take 3000 legal_text @ simplify_tail)"

definition simplify_request :: "string \<Rightarrow> string option \<Rightarrow> request" where
  "simplify_request legal_text query =
     \<lparr>messages =
        [system_message
           ''You are a helpful legal document simplifier. You break down complex legal jargon into plain, simple language that anyone can understand.'',
         user_message (simplify_prompt legal_text query)],
      model = ''llama-3.3-70b-versatile'', temperature = 0.7, max_tokens = 1500\<rparr>"

definition simplify_legal_text :: "client \<Rightarrow> string \<Rightarrow> string option \<Rightarrow> simplifier
    \<Rightarrow> string \<times> simplifier" where
  "simplify_legal_text cl legal_text query s =
     (let (r, s') = create cl (simplify_request legal_text query) s
      in case r of
           Inl e \<Rightarrow> (''Error calling API: '' @ e, s')
         | Inr c \<Rightarrow> (c, s'))"

subsection \<open>Compare\<close>

definition NOT_LOADED :: string where
  "NOT_LOADED = ''One or both documents not found. Please load them first.''"

definition compare_prompt :: "string \<Rightarrow> string \<Rightarrow> string \<Rightarrow> string \<Rightarrow> string" where
  \<open>compare_prompt doc1_name doc1_text doc2_name doc2_text =
     ''Compare these two legal documents and provide:\<newline>'' @
     ''1. Main differences between them\<newline>'' @
     ''2. Which document is more favorable and why\<newline>'' @
     ''3. Key clauses that differ\<newline>'' @
     ''4. Recommendations on which is better\<newline>'' @
     ''\<newline>'' @
     ''Document 1 ('' @ doc1_name @ ''):\<newline>'' @ doc1_text @
     ''\<newline>'' @
     ''\<newline>'' @
     ''Document 2 ('' @ doc2_name @ ''):\<newline>'' @ doc2_text @
     ''\<newline>'' @
     ''\<newline>'' @
     ''Provide a clear, easy-to-understand comparison.''\<close>

definition compare_request :: "string \<Rightarrow> string \<Rightarrow> string \<Rightarrow> string \<Rightarrow> request" where
  "compare_request doc1_name doc1_text doc2_name doc2_text =
     \<lparr>messages =
        [system_message
           ''You are a legal expert who compares documents and explains differences clearly.'',
         user_message (compare_prompt doc1_name doc1_text doc2_name doc2_text)],
      model = ''llama-3.3-70b-versatile'', temperature = 0.7, max_tokens = 2000\<rparr>"

definition compare_documents :: "client \<Rightarrow> string \<Rightarrow> string \<Rightarrow> simplifier \<Rightarrow> string \<times> simplifier" where
  "compare_documents cl doc1_name doc2_name s =
     (case (map_of (loaded_documents s) doc1_name, map_of (loaded_documents s) doc2_name) of
        (Some d1, Some d2) \<Rightarrow>
          (let doc1_text = take 3000 (doc_text d1);
               doc2_text = take 3000 (doc_text d2);
               (r, s') = create cl (compare_request doc1_name doc1_text doc2_name doc2_text) s
           in case r of
                Inl e \<Rightarrow> (''Error comparing documents: '' @ e, s')
              | Inr c \<Rightarrow> (c, s'))
      | _ \<Rightarrow> (NOT_LOADED, s))"

subsection \<open>Chat\<close>

definition context_prompt :: "string \<Rightarrow> string option \<Rightarrow> string" where
  \<open>context_prompt message document_context =
     (if truthy document_context
      then ''Document Context:\<newline>'' @ take 2000 (the document_context) @
           ''\<newline>'' @
           ''\<newline>'' @
           ''User Question: '' @ message
      else message)\<close>

definition chat_request :: "message list \<Rightarrow> request" where
  "chat_request history =
     \<lparr>messages =
        [system_message
           ''You are a legal document expert who explains things in simple terms. Be conversational, friendly, and avoid legal jargon.'']
        @ history,
      model = ''llama-3.3-70b-versatile'', temperature = 0.7, max_tokens = 1000\<rparr>"

definition chat :: "client \<Rightarrow> string \<Rightarrow> string option \<Rightarrow> simplifier \<Rightarrow> string \<times> simplifier" where
  "chat cl message document_context s =
     (let s1 = s\<lparr>conversation_history :=
                   conversation_history s @ [user_message (context_prompt message document_context)]\<rparr>;
          (r, s2) = create cl (chat_request (conversation_history s1)) s1
      in case r of
           Inl e \<Rightarrow> (''Error: '' @ e, s2)
         | Inr assistant \<Rightarrow>
             (assistant,
              s2\<lparr>conversation_history := conversation_history s2 @ [assistant_message assistant]\<rparr>))"

section \<open>Route handlers (\<^verbatim>\<open>api.py\<close>)\<close>

text \<open>
  A response is the HTTP status with the JSON body; the constant fields of a success body
  (\<^verbatim>\<open>success\<close>, \<^verbatim>\<open>message\<close>) are implied by its constructor. The request fields arrive
  already decoded: an absent field is \<open>None\<close>.
\<close>

datatype 'f body =
    Error string
  | Uploaded string nat
  | Analysis string
  | Concerns "'f json"
  | Comparison string
  | ChatResponse string
  | Cleared

datatype 'f response = Response nat "'f body"

definition allowed_file :: "string \<Rightarrow> bool" where
  "allowed_file filename =
     (CHR ''.'' \<in> set filename \<and>
      (case py_item (py_rsplit1 filename (CHR ''.'')) 1 of
         Inl e \<Rightarrow> False
       | Inr ext \<Rightarrow> py_lower ext \<in> {''pdf'', ''docx'', ''txt''}))"

record upload =
  uploaded_file :: "(string \<times> string) option"
  form_doc_name :: "string option"

definition upload_document :: "environment \<Rightarrow> upload \<Rightarrow> simplifier \<Rightarrow> 'f response \<times> simplifier" where
  "upload_document env up s =
     (case uploaded_file up of
        None \<Rightarrow> (Response 400 (Error ''No file provided''), s)
      | Some (fname, payload) \<Rightarrow>
          (let doc_name = (case form_doc_name up of None \<Rightarrow> [] | Some n \<Rightarrow> n)
           in if fname = [] then (Response 400 (Error ''No file selected''), s)
              else if \<not> allowed_file fname
                then (Response 400 (Error ''Invalid file type. Use PDF, DOCX, or TXT''), s)
              else
                (let filename = secure_filename env fname;
                     filepath = path_join ''frontend/static/uploads'' filename
                 in case save_file env filepath payload of
                      Some e \<Rightarrow> (Response 500 (Error e), s)
                    | None \<Rightarrow>
                        (case load_document env filepath
                                (Some (if doc_name \<noteq> [] then doc_name else filename)) s of
                           Inl e \<Rightarrow> (Response 500 (Error e), s)
                         | Inr (document_text, s') \<Rightarrow>
                             if py_in ''Error'' document_text
                             then (Response 500 (Error document_text), s')
                             else (Response 200
                                     (Uploaded (if doc_name \<noteq> [] then doc_name else filename)
                                        (length document_text)), s')))))"

definition analyze_document :: "client \<Rightarrow> string option \<Rightarrow> simplifier \<Rightarrow> 'f response \<times> simplifier" where
  "analyze_document cl doc_name s =
     (if \<not> truthy doc_name \<or> map_of (loaded_documents s) (the doc_name) = None
      then (Response 404 (Error ''Document not found''), s)
      else
        (let document_text = doc_text (the (map_of (loaded_documents s) (the doc_name)));
             (analysis, s') = simplify_legal_text cl document_text None s
         in (Response 200 (Analysis analysis), s'\<lparr>current_analysis := Some analysis\<rparr>)))"

text \<open>
  The text written to \<^verbatim>\<open>current_analysis\<close> by \<^verbatim>\<open>get_concerns\<close>. Iterating the value and
  subscripting an item raise as Python does (message texts of CPython 3.11); the text of a
  value that is not a string is given by the parameter \<open>str_of\<close>.
\<close>

definition quoted :: "string \<Rightarrow> string" where
  "quoted t = [CHR 0x27] @ t @ [CHR 0x27]"

fun type_name :: "'f json \<Rightarrow> string" where
  "type_name JNull = ''NoneType''"
| "type_name (JBool b) = ''bool''"
| "type_name (JInt i) = ''int''"
| "type_name (JFloat x) = ''float''"
| "type_name (JStr t) = ''str''"
| "type_name (JList xs) = ''list''"
| "type_name (JDict kvs) = ''dict''"

fun py_iter :: "'f json \<Rightarrow> py_exn + 'f json list" where
  "py_iter (JList xs) = Inr xs"
| "py_iter (JDict kvs) = Inr (map (\<lambda>kv. JStr (fst kv)) kvs)"
| "py_iter (JStr t) = Inr (map (\<lambda>c. JStr [c]) t)"
| "py_iter v = Inl (quoted (type_name v) @ '' object is not iterable'')"

fun subscript :: "'f json \<Rightarrow> string \<Rightarrow> py_exn + 'f json" where
  "subscript (JDict kvs) k = (case map_of kvs k of None \<Rightarrow> Inl (quoted k) | Some v \<Rightarrow> Inr v)"
| "subscript (JStr t) k = Inl (''string indices must be integers, not '' @ quoted ''str'')"
| "subscript (JList xs) k = Inl ''list indices must be integers or slices, not str''"
| "subscript v k = Inl (quoted (type_name v) @ '' object is not subscriptable'')"

definition format_value :: "('f json \<Rightarrow> string) \<Rightarrow> 'f json \<Rightarrow> string" where
  "format_value str_of v = (case v of JStr t \<Rightarrow> t | _ \<Rightarrow> str_of v)"

definition concern_line :: "('f json \<Rightarrow> string) \<Rightarrow> 'f json \<Rightarrow> py_exn + string" where
  \<open>concern_line str_of c =
     and_then (subscript c ''severity'') (\<lambda>severity.
     and_then (subscript c ''clause'') (\<lambda>clause.
     and_then (subscript c ''concern'') (\<lambda>concern.
     and_then (subscript c ''recommendation'') (\<lambda>recommendation.
       Inr (''['' @ format_value str_of severity @ ''] '' @ format_value str_of clause @
            ''\<newline>Concern: '' @ format_value str_of concern @
            ''\<newline>Recommendation: '' @ format_value str_of recommendation @
            ''\<newline>'')))))\<close>

fun concern_lines :: "('f json \<Rightarrow> string) \<Rightarrow> 'f json list \<Rightarrow> py_exn + string list" where
  "concern_lines str_of [] = Inr []"
| "concern_lines str_of (c # cs) =
     and_then (concern_line str_of c) (\<lambda>l.
     and_then (concern_lines str_of cs) (\<lambda>ls. Inr (l # ls)))"

definition get_concerns :: "client \<Rightarrow> (string \<Rightarrow> py_exn + 'f json) \<Rightarrow> ('f json \<Rightarrow> string)
    \<Rightarrow> string option \<Rightarrow> simplifier \<Rightarrow> 'f response \<times> simplifier" where
  \<open>get_concerns cl loads str_of doc_name s =
     (if \<not> truthy doc_name \<or> map_of (loaded_documents s) (the doc_name) = None
      then (Response 404 (Error ''Document not found''), s)
      else
        (let document_text = doc_text (the (map_of (loaded_documents s) (the doc_name)));
             (concerns, s') = highlight_concerning_clauses cl loads document_text s
         in case and_then (py_iter concerns) (concern_lines str_of) of
              Inl e \<Rightarrow> (Response 500 (Error e), s')
            | Inr ls \<Rightarrow>
                (Response 200 (Concerns concerns),
                 s'\<lparr>current_analysis :=
                      Some (''CONCERNING CLAUSES ANALYSIS\<newline>\<newline>'' @ py_join ''\<newline>'' ls)\<rparr>)))\<close>

definition api_compare_documents :: "client \<Rightarrow> string option \<Rightarrow> string option \<Rightarrow> simplifier
    \<Rightarrow> 'f response \<times> simplifier" where
  "api_compare_documents cl doc1 doc2 s =
     (if \<not> truthy doc1 \<or> \<not> truthy doc2
      then (Response 400 (Error ''Two documents required''), s)
      else
        (let (comparison, s') = compare_documents cl (the doc1) (the doc2) s
         in (Response 200 (Comparison comparison), s'\<lparr>current_analysis := Some comparison\<rparr>)))"

definition api_chat :: "client \<Rightarrow> string \<Rightarrow> string option \<Rightarrow> simplifier \<Rightarrow> 'f response \<times> simplifier" where
  "api_chat cl message doc_name s =
     (let document_context =
            (if truthy doc_name \<and> map_of (loaded_documents s) (the doc_name) \<noteq> None
             then Some (doc_text (the (map_of (loaded_documents s) (the doc_name))))
             else None);
          (response, s') = chat cl message document_context s
      in (Response 200 (ChatResponse response), s'))"

definition clear_conversation :: "simplifier \<Rightarrow> 'f response \<times> simplifier" where
  "clear_conversation s = (Response 200 Cleared, s\<lparr>conversation_history := []\<rparr>)"

text \<open>The state built by \<^verbatim>\<open>__init__\<close>, and the requests a task has added to the trace.\<close>

definition initial :: simplifier where
  "initial = \<lparr>conversation_history = [], loaded_documents = [], current_analysis = None,
               requests = []\<rparr>"

definition sent_by :: "simplifier \<Rightarrow> simplifier \<Rightarrow> request list" where
  "sent_by s s' = drop (length (requests s)) (requests s')"

section \<open>The extraction of the concerns interpreter, in the words of the specification\<close>

text \<open>
  For comparison with \<open>fenced_region\<close>, which follows the code. \<open>text_before\<close> is the text in
  front of the first occurrence of a marker (the whole text when there is none) and
  \<open>text_after\<close> the text that follows this occurrence.
\<close>

fun text_before :: "'a list \<Rightarrow> 'a list \<Rightarrow> 'a list" where
  "text_before marker [] = []"
| "text_before marker (c # cs) =
     (if prefix marker (c # cs) then [] else c # text_before marker cs)"

fun text_after :: "'a list \<Rightarrow> 'a list \<Rightarrow> 'a list" where
  "text_after marker [] = []"
| "text_after marker (c # cs) =
     (if prefix marker (c # cs) then drop (length marker) (c # cs) else text_after marker cs)"

text \<open>
  The interior of the fenced block that the first occurrence of \<open>opening\<close> starts: the text
  after that occurrence, up to the next opening marker and the next fence.
\<close>

definition fence_interior :: "string \<Rightarrow> string \<Rightarrow> string" where
  \<open>fence_interior opening t = text_before ''```'' (text_before opening (text_after opening t))\<close>

text \<open>
  The strategy of the specification: the interior of a block labelled json if one is present,
  else the interior of the first fenced block if one is present, else the text itself.
\<close>

definition concerns_region :: "string \<Rightarrow> string" where
  \<open>concerns_region t =
     (if py_in ''```json'' t then fence_interior ''```json'' t
      else if py_in ''```'' t then fence_interior ''```'' t
      else t)\<close>

definition parsed_or_empty :: "py_exn + 'f json \<Rightarrow> 'f json" where
  "parsed_or_empty r = (case r of Inl e \<Rightarrow> JList [] | Inr v \<Rightarrow> v)"

section \<open>Verified properties\<close>

subsection \<open>Chat transcript\<close>

lemma chat_ok:
  "cl (chat_request (conversation_history s @ [user_message (context_prompt m c)])) = Inr a \<Longrightarrow>
   chat cl m c s =
     (a, s\<lparr>conversation_history :=
              conversation_history s @ [user_message (context_prompt m c), assistant_message a],
            requests := requests s @
              [chat_request (conversation_history s @ [user_message (context_prompt m c)])]\<rparr>)"
  by (simp add: chat_def create_def Let_def)

lemma chat_fail:
  "cl (chat_request (conversation_history s @ [user_message (context_prompt m c)])) = Inl e \<Longrightarrow>
   chat cl m c s =
     (''Error: '' @ e,
      s\<lparr>conversation_history := conversation_history s @ [user_message (context_prompt m c)],
        requests := requests s @
          [chat_request (conversation_history s @ [user_message (context_prompt m c)])]\<rparr>)"
  by (simp add: chat_def create_def Let_def)

text \<open>
  Claim C8. From an empty history, two chat calls whose model calls both succeed leave a
  transcript of exactly four turns, in call order user, assistant, user, assistant, holding
  the two prompts and the two answers; each call returns the answer of its model call; and
  \<^verbatim>\<open>clear_conversation\<close> resets the transcript to length 0.
\<close>

theorem chat_two_calls_transcript:
  assumes "conversation_history s = []"
    and "cl (chat_request [user_message (context_prompt m1 c1)]) = Inr a1"
    and "cl (chat_request [user_message (context_prompt m1 c1), assistant_message a1,
                           user_message (context_prompt m2 c2)]) = Inr a2"
  shows "let s1 = snd (chat cl m1 c1 s); s2 = snd (chat cl m2 c2 s1)
         in conversation_history s2 =
              [user_message (context_prompt m1 c1), assistant_message a1,
               user_message (context_prompt m2 c2), assistant_message a2]
          \<and> length (conversation_history s2) = 4
          \<and> map role (conversation_history s2) = [''user'', ''assistant'', ''user'', ''assistant'']
          \<and> fst (chat cl m1 c1 s) = a1 \<and> fst (chat cl m2 c2 s1) = a2
          \<and> length (conversation_history
                (snd (clear_conversation s2 :: 'f response \<times> simplifier))) = 0"
proof -
  have first: "chat cl m1 c1 s =
      (a1, s\<lparr>conversation_history := [user_message (context_prompt m1 c1), assistant_message a1],
             requests := requests s @ [chat_request [user_message (context_prompt m1 c1)]]\<rparr>)"
    using chat_ok[of cl s m1 c1 a1] assms(1,2) by simp
  define s1 where "s1 = snd (chat cl m1 c1 s)"
  have h1: "conversation_history s1 = [user_message (context_prompt m1 c1), assistant_message a1]"
    by (simp add: s1_def first)
  have second: "chat cl m2 c2 s1 =
      (a2, s1\<lparr>conversation_history :=
                conversation_history s1 @ [user_message (context_prompt m2 c2), assistant_message a2],
              requests := requests s1 @
                [chat_request (conversation_history s1 @ [user_message (context_prompt m2 c2)])]\<rparr>)"
    using chat_ok[of cl s1 m2 c2 a2] assms(3) h1 by simp
  show ?thesis
    unfolding Let_def s1_def[symmetric]
    by (simp add: first second h1 clear_conversation_def user_message_def assistant_message_def)
qed

theorem chat_two_calls_transcript_witness:
  "conversation_history
     (snd (chat (\<lambda>r. Inr ''Sure.'') ''And the deposit?'' None
        (snd (chat (\<lambda>r. Inr ''Sure.'') ''What is the rent?'' None initial)))) =
     [user_message ''What is the rent?'', assistant_message ''Sure.'',
      user_message ''And the deposit?'', assistant_message ''Sure.'']"
proof -
  have "conversation_history initial = []"
    by (simp add: initial_def)
  note chat_two_calls_transcript[of initial "\<lambda>r. Inr ''Sure.''" "''What is the rent?''" None
      "''Sure.''" "''And the deposit?''" None "''Sure.''", OF this]
  then have "conversation_history
     (snd (chat (\<lambda>r. Inr ''Sure.'') ''And the deposit?'' None
        (snd (chat (\<lambda>r. Inr ''Sure.'') ''What is the rent?'' None initial)))) =
     [user_message (context_prompt ''What is the rent?'' None), assistant_message ''Sure.'',
      user_message (context_prompt ''And the deposit?'' None), assistant_message ''Sure.'']"
    unfolding Let_def by blast
  then show ?thesis
    by (simp add: context_prompt_def truthy_def)
qed

text \<open>
  Claim C9. When the model call of \<^verbatim>\<open>chat\<close> fails, the user turn is already in the
  history and no assistant turn follows it: the transcript has grown by exactly one turn, it
  ends in a user turn, and the error text handed back to the caller is the returned value
  only, the transcript being the old one followed by the user turn.
\<close>

theorem chat_failure_keeps_user_turn:
  assumes "cl (chat_request (conversation_history s @ [user_message (context_prompt m c)])) = Inl e"
  shows "fst (chat cl m c s) = ''Error: '' @ e
       \<and> conversation_history (snd (chat cl m c s)) =
           conversation_history s @ [user_message (context_prompt m c)]
       \<and> length (conversation_history (snd (chat cl m c s))) = length (conversation_history s) + 1
       \<and> role (last (conversation_history (snd (chat cl m c s)))) = ''user''"
  using chat_fail[of cl s m c e] assms by (simp add: user_message_def)

theorem chat_failure_keeps_user_turn_witness:
  "conversation_history (snd (chat (\<lambda>r. Inl ''timeout'') ''Hello'' None initial)) =
     [user_message ''Hello'']
   \<and> fst (chat (\<lambda>r. Inl ''timeout'') ''Hello'' None initial) = ''Error: timeout''"
  using chat_failure_keeps_user_turn[of "\<lambda>r. Inl ''timeout''" initial "''Hello''" None "''timeout''"]
  by (simp add: initial_def context_prompt_def truthy_def)

subsection \<open>What each task returns and sends\<close>

lemma simplify_ok:
  "cl (simplify_request t q) = Inr a \<Longrightarrow>
   simplify_legal_text cl t q s = (a, s\<lparr>requests := requests s @ [simplify_request t q]\<rparr>)"
  by (simp add: simplify_legal_text_def create_def)

lemma simplify_fail:
  "cl (simplify_request t q) = Inl e \<Longrightarrow>
   simplify_legal_text cl t q s =
     (''Error calling API: '' @ e, s\<lparr>requests := requests s @ [simplify_request t q]\<rparr>)"
  by (simp add: simplify_legal_text_def create_def)

lemma compare_ok:
  "map_of (loaded_documents s) n1 = Some d1 \<Longrightarrow> map_of (loaded_documents s) n2 = Some d2 \<Longrightarrow>
   cl (compare_request n1 (take 3000 (doc_text d1)) n2 (take 3000 (doc_text d2))) = Inr a \<Longrightarrow>
   compare_documents cl n1 n2 s =
     (a, s\<lparr>requests := requests s @
            [compare_request n1 (take 3000 (doc_text d1)) n2 (take 3000 (doc_text d2))]\<rparr>)"
  by (simp add: compare_documents_def create_def Let_def)

lemma compare_fail:
  "map_of (loaded_documents s) n1 = Some d1 \<Longrightarrow> map_of (loaded_documents s) n2 = Some d2 \<Longrightarrow>
   cl (compare_request n1 (take 3000 (doc_text d1)) n2 (take 3000 (doc_text d2))) = Inl e \<Longrightarrow>
   compare_documents cl n1 n2 s =
     (''Error comparing documents: '' @ e,
      s\<lparr>requests := requests s @
            [compare_request n1 (take 3000 (doc_text d1)) n2 (take 3000 (doc_text d2))]\<rparr>)"
  by (simp add: compare_documents_def create_def Let_def)

lemma compare_missing:
  "map_of (loaded_documents s) n1 = None \<or> map_of (loaded_documents s) n2 = None \<Longrightarrow>
   compare_documents cl n1 n2 s = (NOT_LOADED, s)"
  by (auto simp: compare_documents_def split: option.splits)

lemma highlight_fail:
  "cl (concerns_request t) = Inl e \<Longrightarrow>
   highlight_concerning_clauses cl loads t s =
     (JList [], s\<lparr>requests := requests s @ [concerns_request t]\<rparr>)"
  by (simp add: highlight_concerning_clauses_def create_def and_then_def)

lemma highlight_ok:
  "cl (concerns_request t) = Inr raw \<Longrightarrow>
   highlight_concerning_clauses cl loads t s =
     ((case interpret_concerns loads raw of Inl e \<Rightarrow> JList [] | Inr v \<Rightarrow> v),
      s\<lparr>requests := requests s @ [concerns_request t]\<rparr>)"
  by (simp add: highlight_concerning_clauses_def create_def and_then_def split: sum.splits)

lemma highlight_requests:
  "requests (snd (highlight_concerning_clauses cl loads t s)) = requests s @ [concerns_request t]"
  by (simp add: highlight_concerning_clauses_def create_def split: sum.splits)

lemma simplify_requests:
  "requests (snd (simplify_legal_text cl t q s)) = requests s @ [simplify_request t q]"
  by (simp add: simplify_legal_text_def create_def split: sum.splits)

lemma compare_requests:
  "requests (snd (compare_documents cl n1 n2 s)) = requests s @
     (case (map_of (loaded_documents s) n1, map_of (loaded_documents s) n2) of
        (Some d1, Some d2) \<Rightarrow>
          [compare_request n1 (take 3000 (doc_text d1)) n2 (take 3000 (doc_text d2))]
      | _ \<Rightarrow> [])"
  by (simp add: compare_documents_def create_def Let_def split: sum.splits option.splits)

lemma chat_requests:
  "requests (snd (chat cl m c s)) = requests s @
     [chat_request (conversation_history s @ [user_message (context_prompt m c)])]"
  by (cases "cl (chat_request (conversation_history s @ [user_message (context_prompt m c)]))")
     (simp_all add: chat_ok chat_fail)

lemma context_prompt_None: "context_prompt m None = m"
  by (simp add: context_prompt_def truthy_def)

text \<open>
  Claim C7. Each task submits one request (compare: one when both documents are loaded, none
  otherwise), and that request names the model \<^verbatim>\<open>llama-3.3-70b-versatile\<close>, with
  temperature 0.5 and at most 2000 output tokens for concerns, 0.7 and 1500 for simplify,
  0.7 and 2000 for compare, 0.7 and 1000 for chat.
\<close>

theorem model_parameters:
  "sent_by s (snd (highlight_concerning_clauses cl loads t s)) = [concerns_request t]
   \<and> model (concerns_request t) = ''llama-3.3-70b-versatile''
   \<and> temperature (concerns_request t) = 0.5 \<and> max_tokens (concerns_request t) = 2000
   \<and> sent_by s (snd (simplify_legal_text cl t q s)) = [simplify_request t q]
   \<and> model (simplify_request t q) = ''llama-3.3-70b-versatile''
   \<and> temperature (simplify_request t q) = 0.7 \<and> max_tokens (simplify_request t q) = 1500
   \<and> sent_by s (snd (compare_documents cl n1 n2 s)) =
       (case (map_of (loaded_documents s) n1, map_of (loaded_documents s) n2) of
          (Some d1, Some d2) \<Rightarrow>
            [compare_request n1 (take 3000 (doc_text d1)) n2 (take 3000 (doc_text d2))]
        | _ \<Rightarrow> [])
   \<and> model (compare_request n1 t1 n2 t2) = ''llama-3.3-70b-versatile''
   \<and> temperature (compare_request n1 t1 n2 t2) = 0.7
   \<and> max_tokens (compare_request n1 t1 n2 t2) = 2000
   \<and> sent_by s (snd (chat cl m c s)) =
       [chat_request (conversation_history s @ [user_message (context_prompt m c)])]
   \<and> model (chat_request h) = ''llama-3.3-70b-versatile''
   \<and> temperature (chat_request h) = 0.7 \<and> max_tokens (chat_request h) = 1000"
  by (simp add: sent_by_def highlight_requests simplify_requests compare_requests chat_requests
      concerns_request_def simplify_request_def compare_request_def chat_request_def)

theorem model_parameters_witness:
  "sent_by initial (snd (chat (\<lambda>r. Inr ''Sure.'') ''What is the rent?'' None initial)) =
     [chat_request [user_message ''What is the rent?'']]
   \<and> model (chat_request [user_message ''What is the rent?'']) = ''llama-3.3-70b-versatile''
   \<and> temperature (chat_request [user_message ''What is the rent?'']) = 0.7
   \<and> max_tokens (chat_request [user_message ''What is the rent?'']) = 1000"
proof -
  note model_parameters[where s = initial and cl = "\<lambda>r. Inr ''Sure.''"
      and m = "''What is the rent?''" and c = None and h = "[user_message ''What is the rent?'']"]
  then have "sent_by initial (snd (chat (\<lambda>r. Inr ''Sure.'') ''What is the rent?'' None initial)) =
       [chat_request (conversation_history initial @
          [user_message (context_prompt ''What is the rent?'' None)])]"
    and "model (chat_request [user_message ''What is the rent?'']) = ''llama-3.3-70b-versatile''"
    and "temperature (chat_request [user_message ''What is the rent?'']) = 0.7"
    and "max_tokens (chat_request [user_message ''What is the rent?'']) = 1000"
    by blast+
  then show ?thesis
    by (simp add: context_prompt_None initial_def)
qed

subsection \<open>Free-text results and gateway failures\<close>

text \<open>
  Claim C6, as amended. When the model call of a free-text task succeeds, the task returns
  the text of the model exactly as received: simplify, compare (both documents loaded) and
  chat return it without trimming.
\<close>

theorem free_text_returned_verbatim:
  "(cl (simplify_request t q) = Inr a \<longrightarrow> fst (simplify_legal_text cl t q s) = a)
   \<and> (map_of (loaded_documents s) n1 = Some d1 \<and> map_of (loaded_documents s) n2 = Some d2
        \<and> cl (compare_request n1 (take 3000 (doc_text d1)) n2 (take 3000 (doc_text d2))) = Inr a
       \<longrightarrow> fst (compare_documents cl n1 n2 s) = a)
   \<and> (cl (chat_request (conversation_history s @ [user_message (context_prompt m c)])) = Inr a
       \<longrightarrow> fst (chat cl m c s) = a)"
  by (simp add: simplify_ok compare_ok chat_ok)

theorem free_text_returned_verbatim_witness:
  "fst (simplify_legal_text (\<lambda>r. Inr '' Plain summary. '') ''Tenant shall pay.'' None initial) =
     '' Plain summary. ''
   \<and> fst (chat (\<lambda>r. Inr '' Plain summary. '') ''Hello'' None initial) = '' Plain summary. ''"
  using free_text_returned_verbatim[where cl = "\<lambda>r. Inr '' Plain summary. ''"
      and a = "'' Plain summary. ''" and t = "''Tenant shall pay.''" and q = None
      and s = initial and m = "''Hello''" and c = None]
  by simp

text \<open>
  The claim as stated fails: the model text \<open>'' Plain summary. ''\<close> comes back with its
  leading and trailing blank, while trimming it gives \<open>''Plain summary.''\<close>.
\<close>

theorem free_text_trimmed_counterexample:
  "fst (simplify_legal_text (\<lambda>r. Inr '' Plain summary. '') ''Tenant shall pay.'' None initial)
     \<noteq> py_strip '' Plain summary. ''
   \<and> fst (chat (\<lambda>r. Inr '' Plain summary. '') ''Hello'' None initial)
     \<noteq> py_strip '' Plain summary. ''"
  by (simp add: simplify_ok chat_ok py_strip_def py_isspace_def)

text \<open>
  Claim C4, as amended. A failure of the model call never leaves a task. Simplify, compare
  and chat turn it into an error text that carries the upstream message and return that
  text; concerns turns it into the empty list, so its caller receives no error message.
\<close>

theorem gateway_failure_results:
  "(cl (simplify_request t q) = Inl e \<longrightarrow>
      fst (simplify_legal_text cl t q s) = ''Error calling API: '' @ e)
   \<and> (map_of (loaded_documents s) n1 = Some d1 \<and> map_of (loaded_documents s) n2 = Some d2
        \<and> cl (compare_request n1 (take 3000 (doc_text d1)) n2 (take 3000 (doc_text d2))) = Inl e
       \<longrightarrow> fst (compare_documents cl n1 n2 s) = ''Error comparing documents: '' @ e)
   \<and> (cl (chat_request (conversation_history s @ [user_message (context_prompt m c)])) = Inl e
       \<longrightarrow> fst (chat cl m c s) = ''Error: '' @ e)
   \<and> (cl (concerns_request t) = Inl e \<longrightarrow>
       fst (highlight_concerning_clauses cl loads t s) = JList [])"
  by (simp add: simplify_fail compare_fail chat_fail highlight_fail)

theorem gateway_failure_results_witness:
  "fst (simplify_legal_text (\<lambda>r. Inl ''Connection error.'') ''Tenant shall pay.'' None initial) =
     ''Error calling API: Connection error.''
   \<and> fst (chat (\<lambda>r. Inl ''Connection error.'') ''Hello'' None initial) = ''Error: Connection error.''
   \<and> fst (highlight_concerning_clauses (\<lambda>r. Inl ''Connection error.'') (\<lambda>t. Inl ''unused'')
         ''Tenant shall pay.'' initial) = (JList [] :: unit json)"
  using gateway_failure_results[where cl = "\<lambda>r. Inl ''Connection error.''"
      and e = "''Connection error.''" and t = "''Tenant shall pay.''" and q = None
      and s = initial and m = "''Hello''" and c = None
      and loads = "\<lambda>t. Inl ''unused'' :: string + unit json"]
  by simp

text \<open>
  The claim as stated fails for concerns: when the model call raises, the task returns the
  empty list, and the route answers with status 200 and that list.
\<close>

theorem concerns_failure_counterexample:
  "fst (highlight_concerning_clauses (\<lambda>r. Inl ''Connection error.'') (\<lambda>t. Inl ''unused'')
         ''Tenant shall pay.'' initial) = (JList [] :: unit json)
   \<and> get_concerns (\<lambda>r. Inl ''Connection error.'') (\<lambda>t. Inl ''unused'') (\<lambda>v. [])
        (Some ''lease'')
        (initial\<lparr>loaded_documents :=
           [(''lease'', \<lparr>doc_text = ''Tenant shall pay.'', doc_path = ''lease.txt'',
                         loaded_at = ''2024-01-01 12:00:00''\<rparr>)]\<rparr>) =
       (Response 200 (Concerns (JList [] :: unit json)),
        initial\<lparr>loaded_documents :=
           [(''lease'', \<lparr>doc_text = ''Tenant shall pay.'', doc_path = ''lease.txt'',
                         loaded_at = ''2024-01-01 12:00:00''\<rparr>)],
          requests := [concerns_request ''Tenant shall pay.''],
          current_analysis := Some ''CONCERNING CLAUSES ANALYSIS\<newline>\<newline>''\<rparr>)"
  by (simp add: highlight_fail get_concerns_def truthy_def initial_def and_then_def)


subsection \<open>Unknown document names\<close>

lemma analyze_missing:
  "map_of (loaded_documents s) n = None \<Longrightarrow>
   analyze_document cl (Some n) s = (Response 404 (Error ''Document not found''), s)"
  by (simp add: analyze_document_def)

lemma concerns_missing:
  "map_of (loaded_documents s) n = None \<Longrightarrow>
   get_concerns cl loads str_of (Some n) s = (Response 404 (Error ''Document not found''), s)"
  by (simp add: get_concerns_def)

lemma api_chat_missing:
  "map_of (loaded_documents s) n = None \<Longrightarrow>
   api_chat cl m (Some n) s =
     (Response 200 (ChatResponse (fst (chat cl m None s))), snd (chat cl m None s))"
  by (simp add: api_chat_def split: prod.splits)

text \<open>
  Claim C1, as amended. For a name that is not in the document set: analyze and concerns
  answer 404 \<open>Document not found\<close> and leave the state as it was, so no request is sent;
  compare returns its not-found message and leaves the state as it was; chat does not fail:
  it runs as if no document had been named, sending the bare message to the model.
\<close>

theorem unknown_document_name:
  assumes "map_of (loaded_documents s) n = None"
  shows "analyze_document cl (Some n) s = (Response 404 (Error ''Document not found''), s)
       \<and> get_concerns cl loads str_of (Some n) s = (Response 404 (Error ''Document not found''), s)
       \<and> compare_documents cl n n2 s = (NOT_LOADED, s)
       \<and> compare_documents cl n1 n s = (NOT_LOADED, s)
       \<and> sent_by s s = []
       \<and> api_chat cl m (Some n) s =
           (Response 200 (ChatResponse (fst (chat cl m None s))), snd (chat cl m None s))
       \<and> sent_by s (snd (chat cl m None s)) =
           [chat_request (conversation_history s @ [user_message m])]"
  using assms
  by (simp add: analyze_missing concerns_missing compare_missing api_chat_missing
      sent_by_def chat_requests context_prompt_None)

theorem unknown_document_name_witness:
  "analyze_document (\<lambda>r. Inr ''Hello!'') (Some ''missing.pdf'') initial =
     (Response 404 (Error ''Document not found'') :: unit response, initial)
   \<and> compare_documents (\<lambda>r. Inr ''Hello!'') ''missing.pdf'' ''other.pdf'' initial =
     (''One or both documents not found. Please load them first.'', initial)"
proof -
  have "map_of (loaded_documents initial) ''missing.pdf'' = None"
    by (simp add: initial_def)
  note unknown_document_name[where s = initial and n = "''missing.pdf''"
      and cl = "\<lambda>r. Inr ''Hello!''" and ?n2.0 = "''other.pdf''" and ?n1.0 = "''other.pdf''"
      and m = "''Hi''" and loads = "\<lambda>t. Inl ''unused'' :: string + unit json"
      and str_of = "\<lambda>v. []", OF this]
  then show ?thesis
    unfolding NOT_LOADED_def by blast
qed

text \<open>
  The claim as stated fails for chat: with no document loaded, a chat request that names
  \<open>missing.pdf\<close> is answered with status 200 and the text of the model, and one request
  has been sent.
\<close>

theorem unknown_document_chat_counterexample:
  "api_chat (\<lambda>r. Inr ''Hello!'') ''Hi'' (Some ''missing.pdf'') initial =
     (Response 200 (ChatResponse ''Hello!'') :: unit response,
      initial\<lparr>conversation_history := [user_message ''Hi'', assistant_message ''Hello!''],
              requests := [chat_request [user_message ''Hi'']]\<rparr>)"
  by (simp add: api_chat_def initial_def truthy_def chat_ok context_prompt_None)

subsection \<open>Loading and uploading\<close>

lemma split_from_nonempty: "split_from sep cur t \<noteq> []"
  by (induction sep cur t rule: split_from.induct) auto

lemma file_extension_total: "\<exists>x. file_extension p = Inr x"
  using split_from_nonempty[of "''.''" "[]" "py_lower p"]
  by (cases "split_from ''.'' [] (py_lower p)")
     (auto simp: file_extension_def py_split_def and_then_def py_item_def Let_def)

lemma load_document_total: "\<exists>t s'. load_document env p dn s = Inr (t, s')"
proof -
  obtain x where "file_extension p = Inr x" using file_extension_total by blast
  then show ?thesis
    by (cases "store_document (read_pdf env p) p dn env s";
        cases "store_document (read_docx env p) p dn env s";
        cases "store_document (read_txt env p) p dn env s")
       (simp add: load_document_def and_then_def)
qed

lemma load_document_stores:
  assumes "file_extension p = Inr x" and "x \<in> {''pdf'', ''docx'', ''txt''}"
    and "load_document env p dn s = Inr (t, s')"
  shows "t = (if x = ''pdf'' then read_pdf env p else if x = ''docx'' then read_docx env p
              else read_txt env p)
       \<and> s' = s\<lparr>loaded_documents :=
                 AList.update (if truthy dn then the dn else basename p)
                   \<lparr>doc_text = t, doc_path = p, loaded_at = now env\<rparr> (loaded_documents s)\<rparr>"
  using assms by (auto simp: load_document_def and_then_def store_document_def Let_def)

lemma lookup_after_update: "map_of (AList.update k v al) k = Some v"
  by (simp add: update_conv')

text \<open>
  Claim C3 (the code departs from it). The PDF reader raises on \<open>lease.pdf\<close>; the load
  returns the error text and has stored an entry under the name \<open>lease\<close> whose text is that
  error text.
\<close>

theorem load_failure_is_stored:
  "load_document
     \<lparr>pdf_pages = (\<lambda>p. Inl ''EOF marker not found''), docx_paragraphs = (\<lambda>p. Inr []),
      txt_read = (\<lambda>p. Inr []), now = ''2024-01-01 12:00:00'', secure_filename = (\<lambda>n. n),
      save_file = (\<lambda>p d. None)\<rparr>
     ''lease.pdf'' (Some ''lease'') initial =
   Inr (''Error reading PDF: EOF marker not found'',
        initial\<lparr>loaded_documents :=
          [(''lease'', \<lparr>doc_text = ''Error reading PDF: EOF marker not found'',
                       doc_path = ''lease.pdf'', loaded_at = ''2024-01-01 12:00:00''\<rparr>)]\<rparr>)"
  by (simp add: load_document_def file_extension_def py_split_def py_lower_def lower_char_def
      and_then_def py_item_def store_document_def read_pdf_def truthy_def initial_def)

text \<open>
  Claim C10. Once an upload has passed the checks of the route and the file is saved, the
  route answers with an error (status 500, the loaded text as message) exactly when the text
  returned by the load contains \<open>Error\<close>, and with success otherwise. When the extension is
  one the loader supports, the entry is in the document set in both cases; so a document read
  without any failure whose text contains \<open>Error\<close> is reported as failed and is stored.
\<close>

theorem upload_error_by_substring:
  assumes "uploaded_file up = Some (fname, payload)" and "fname \<noteq> []" and "allowed_file fname"
    and "filename = secure_filename env fname"
    and "filepath = path_join ''frontend/static/uploads'' filename"
    and "save_file env filepath payload = None"
    and "doc_name = (case form_doc_name up of None \<Rightarrow> [] | Some n \<Rightarrow> n)"
    and "name = (if doc_name \<noteq> [] then doc_name else filename)"
  shows "\<exists>t s'. load_document env filepath (Some name) s = Inr (t, s')
           \<and> (upload_document env up s :: 'f response \<times> simplifier) =
               (if py_in ''Error'' t then (Response 500 (Error t), s')
                else (Response 200 (Uploaded name (length t)), s'))
           \<and> (\<forall>x. file_extension filepath = Inr x \<and> x \<in> {''pdf'', ''docx'', ''txt''} \<longrightarrow>
                 map_of (loaded_documents s') (if name \<noteq> [] then name else basename filepath) =
                   Some \<lparr>doc_text = t, doc_path = filepath, loaded_at = now env\<rparr>)
           \<and> (\<forall>c. file_extension filepath = Inr ''txt'' \<and> txt_read env filepath = Inr c \<longrightarrow> t = c)
           \<and> (\<forall>ps. file_extension filepath = Inr ''docx'' \<and> docx_paragraphs env filepath = Inr ps
                 \<longrightarrow> t = py_join ''\<newline>'' ps)
           \<and> (\<forall>pages c. file_extension filepath = Inr ''pdf'' \<and> pdf_pages env filepath = Inr pages
                 \<and> extract_pages [] pages = Inr c \<longrightarrow> t = c)"
proof -
  let ?fp = "path_join ''frontend/static/uploads'' (secure_filename env fname)"
  let ?nm = "if doc_name \<noteq> [] then doc_name else secure_filename env fname"
  obtain t s' where l: "load_document env ?fp (Some ?nm) s = Inr (t, s')"
    using load_document_total by blast
  have sv: "save_file env ?fp payload = None"
    using assms(4,5,6) by simp
  have up: "(upload_document env up s :: 'f response \<times> simplifier) =
               (if py_in ''Error'' t then (Response 500 (Error t), s')
                else (Response 200 (Uploaded ?nm (length t)), s'))"
    unfolding upload_document_def Let_def assms(7)[symmetric]
    using assms(1,2,3) sv l by (cases "doc_name = []") simp_all
  have stored: "map_of (loaded_documents s') (if ?nm \<noteq> [] then ?nm else basename ?fp) =
                   Some \<lparr>doc_text = t, doc_path = ?fp, loaded_at = now env\<rparr>"
    if "file_extension ?fp = Inr x" "x \<in> {''pdf'', ''docx'', ''txt''}" for x
    using load_document_stores[OF that l] by (simp add: truthy_def lookup_after_update)
  have from_txt: "t = c" if "file_extension ?fp = Inr ''txt''" "txt_read env ?fp = Inr c" for c
    using load_document_stores[OF that(1) _ l] that(2) by (simp add: read_txt_def)
  have from_docx: "t = py_join ''\<newline>'' ps"
    if "file_extension ?fp = Inr ''docx''" "docx_paragraphs env ?fp = Inr ps" for ps
    using load_document_stores[OF that(1) _ l] that(2) by (simp add: read_docx_def)
  have from_pdf: "t = c"
    if "file_extension ?fp = Inr ''pdf''" "pdf_pages env ?fp = Inr pages"
       "extract_pages [] pages = Inr c" for pages c
    using load_document_stores[OF that(1) _ l] that(2,3) by (simp add: read_pdf_def and_then_def)
  show ?thesis
    unfolding assms(4,5,8) using l up stored from_txt from_docx from_pdf by blast
qed


theorem upload_error_by_substring_witness:
  "upload_document
     \<lparr>pdf_pages = (\<lambda>p. Inr []), docx_paragraphs = (\<lambda>p. Inr []),
      txt_read = (\<lambda>p. Inr ''No Error shall be waived.''), now = ''2024-01-01 12:00:00'',
      secure_filename = (\<lambda>n. n), save_file = (\<lambda>p d. None)\<rparr>
     \<lparr>uploaded_file = Some (''lease.txt'', ''No Error shall be waived.''), form_doc_name = None\<rparr>
     initial =
   (Response 500 (Error ''No Error shall be waived.'') :: unit response,
    initial\<lparr>loaded_documents :=
      [(''lease.txt'', \<lparr>doc_text = ''No Error shall be waived.'',
                          doc_path = ''frontend/static/uploads/lease.txt'',
                          loaded_at = ''2024-01-01 12:00:00''\<rparr>)]\<rparr>)"
proof -
  let ?env = "\<lparr>pdf_pages = (\<lambda>p. Inr []), docx_paragraphs = (\<lambda>p. Inr []),
      txt_read = (\<lambda>p. Inr ''No Error shall be waived.''), now = ''2024-01-01 12:00:00'',
      secure_filename = (\<lambda>n. n), save_file = (\<lambda>p d. None)\<rparr>"
  let ?up = "\<lparr>uploaded_file = Some (''lease.txt'', ''No Error shall be waived.''),
      form_doc_name = None\<rparr>"
  have allowed: "allowed_file ''lease.txt''"
    by code_simp
  have joined: "''frontend/static/uploads/lease.txt'' =
      path_join ''frontend/static/uploads'' ''lease.txt''"
    by (simp add: path_join_def suffix_to_prefix)
  have loaded: "load_document ?env ''frontend/static/uploads/lease.txt'' (Some ''lease.txt'') initial =
      Inr (''No Error shall be waived.'',
           initial\<lparr>loaded_documents :=
             [(''lease.txt'', \<lparr>doc_text = ''No Error shall be waived.'',
                                 doc_path = ''frontend/static/uploads/lease.txt'',
                                 loaded_at = ''2024-01-01 12:00:00''\<rparr>)]\<rparr>)"
    by (simp add: load_document_def file_extension_def py_split_def py_lower_def lower_char_def
        and_then_def py_item_def store_document_def read_txt_def truthy_def initial_def)
  have h1: "uploaded_file ?up = Some (''lease.txt'', ''No Error shall be waived.'')"
    and h2: "''lease.txt'' \<noteq> []"
    and h4: "''lease.txt'' = secure_filename ?env ''lease.txt''"
    and h6: "save_file ?env ''frontend/static/uploads/lease.txt'' ''No Error shall be waived.'' = None"
    and h7: "[] = (case form_doc_name ?up of None \<Rightarrow> [] | Some n \<Rightarrow> n)"
    and h8: "''lease.txt'' = (if ([] :: string) \<noteq> [] then [] else ''lease.txt'')"
    by simp_all
  note upload_error_by_substring[where ?'f = unit and s = initial,
      OF h1 h2 allowed h4 joined h6 h7 h8]
  then obtain t s' where
    l: "load_document ?env ''frontend/static/uploads/lease.txt'' (Some ''lease.txt'') initial
       = Inr (t, s')"
    and u: "(upload_document ?env ?up initial :: unit response \<times> simplifier) =
               (if py_in ''Error'' t then (Response 500 (Error t), s')
                else (Response 200 (Uploaded ''lease.txt'' (length t)), s'))"
    by blast
  from l have t: "t = ''No Error shall be waived.''"
    and s': "s' = initial\<lparr>loaded_documents :=
             [(''lease.txt'', \<lparr>doc_text = ''No Error shall be waived.'',
                                 doc_path = ''frontend/static/uploads/lease.txt'',
                                 loaded_at = ''2024-01-01 12:00:00''\<rparr>)]\<rparr>"
    unfolding loaded by auto
  show ?thesis
    unfolding u t s' by simp
qed

subsection \<open>Prompt truncation\<close>

lemma compare_prompt_length:
  "length (compare_prompt n1 t1 n2 t2) =
     length (compare_prompt n1 [] n2 []) + length t1 + length t2"
  by (simp add: compare_prompt_def)

lemma concerns_prompt_length:
  "length (concerns_prompt t) = length (concerns_prompt []) + min 4000 (length t)"
  by (simp add: concerns_prompt_def)

lemma simplify_prompt_length:
  "length (simplify_prompt t qo) = length (simplify_prompt [] qo) + min 3000 (length t)"
  by (simp add: simplify_prompt_def)

lemma simplify_prompt_query:
  "q \<noteq> [] \<Longrightarrow>
   simplify_prompt t (Some q) = simplify_query_head @ take 3000 t @ simplify_query_tail q"
  by (simp add: simplify_prompt_def truthy_def)

lemma simplify_prompt_plain:
  "simplify_prompt t None = simplify_head @ take 3000 t @ simplify_tail"
  by (simp add: simplify_prompt_def truthy_def)

lemma context_prompt_Some:
  "ctx \<noteq> [] \<Longrightarrow>
   context_prompt m (Some ctx) =
     ''Document Context:\<newline>'' @ take 2000 ctx @ ''\<newline>\<newline>User Question: '' @ m"
  by (simp add: context_prompt_def truthy_def)

lemma context_prompt_length:
  "ctx \<noteq> [] \<Longrightarrow>
   length (context_prompt m (Some ctx)) = 35 + length m + min 2000 (length ctx)"
  by (simp add: context_prompt_Some)

lemma compare_sent:
  "map_of (loaded_documents s) n1 = Some d1 \<Longrightarrow> map_of (loaded_documents s) n2 = Some d2 \<Longrightarrow>
   sent_by s (snd (compare_documents cl n1 n2 s)) =
     [compare_request n1 (take 3000 (doc_text d1)) n2 (take 3000 (doc_text d2))]"
  by (simp add: compare_requests sent_by_def)

lemma take_exact: "n < length t \<Longrightarrow> length (take n t) = n"
  by simp

text \<open>
  Claim C5. Every prompt builder embeds a prefix of its input text between parts that do not
  depend on that text: at most 4000 characters for concerns, 3000 for simplify (with or
  without a question), 3000 for each document of compare, 2000 for the document context of
  chat. For an input longer than the budget the embedded text has exactly budget-many
  characters, and the length of the prompt is that of the prompt for the empty text plus the
  budget.
\<close>

theorem prompt_truncation:
  "concerns_prompt t = concerns_head @ take 4000 t @ concerns_tail
   \<and> length (concerns_prompt t) = length (concerns_prompt []) + min 4000 (length t)
   \<and> (4000 < length t \<longrightarrow> length (take 4000 t) = 4000)
   \<and> simplify_prompt t None = simplify_head @ take 3000 t @ simplify_tail
   \<and> (q \<noteq> [] \<longrightarrow>
        simplify_prompt t (Some q) = simplify_query_head @ take 3000 t @ simplify_query_tail q)
   \<and> length (simplify_prompt t qo) = length (simplify_prompt [] qo) + min 3000 (length t)
   \<and> (3000 < length t \<longrightarrow> length (take 3000 t) = 3000)
   \<and> (map_of (loaded_documents s) n1 = Some d1 \<and> map_of (loaded_documents s) n2 = Some d2 \<longrightarrow>
        sent_by s (snd (compare_documents cl n1 n2 s)) =
          [compare_request n1 (take 3000 (doc_text d1)) n2 (take 3000 (doc_text d2))]
        \<and> length (compare_prompt n1 (take 3000 (doc_text d1)) n2 (take 3000 (doc_text d2))) =
            length (compare_prompt n1 [] n2 [])
            + min 3000 (length (doc_text d1)) + min 3000 (length (doc_text d2)))
   \<and> (ctx \<noteq> [] \<longrightarrow>
        context_prompt m (Some ctx) =
          ''Document Context:\<newline>'' @ take 2000 ctx @ ''\<newline>\<newline>User Question: '' @ m
        \<and> length (context_prompt m (Some ctx)) = 35 + length m + min 2000 (length ctx))
   \<and> (2000 < length ctx \<longrightarrow> length (take 2000 ctx) = 2000)"
proof (intro conjI impI)
  show "concerns_prompt t = concerns_head @ take 4000 t @ concerns_tail"
    by (simp only: concerns_prompt_def)
  show "length (concerns_prompt t) = length (concerns_prompt []) + min 4000 (length t)"
    by (rule concerns_prompt_length)
  show "length (take 4000 t) = 4000" if "4000 < length t"
    using that by (rule take_exact)
  show "simplify_prompt t None = simplify_head @ take 3000 t @ simplify_tail"
    by (rule simplify_prompt_plain)
  show "simplify_prompt t (Some q) = simplify_query_head @ take 3000 t @ simplify_query_tail q"
    if "q \<noteq> []"
    using that by (rule simplify_prompt_query)
  show "length (simplify_prompt t qo) = length (simplify_prompt [] qo) + min 3000 (length t)"
    by (rule simplify_prompt_length)
  show "length (take 3000 t) = 3000" if "3000 < length t"
    using that by (rule take_exact)
  show "sent_by s (snd (compare_documents cl n1 n2 s)) =
          [compare_request n1 (take 3000 (doc_text d1)) n2 (take 3000 (doc_text d2))]"
    if "map_of (loaded_documents s) n1 = Some d1 \<and> map_of (loaded_documents s) n2 = Some d2"
    using that compare_sent by blast
  show "length (compare_prompt n1 (take 3000 (doc_text d1)) n2 (take 3000 (doc_text d2))) =
          length (compare_prompt n1 [] n2 [])
          + min 3000 (length (doc_text d1)) + min 3000 (length (doc_text d2))"
    by (simp only: compare_prompt_length[of n1 "take 3000 (doc_text d1)"] length_take min.commute)
  show "context_prompt m (Some ctx) =
          ''Document Context:\<newline>'' @ take 2000 ctx @ ''\<newline>\<newline>User Question: '' @ m"
    if "ctx \<noteq> []"
    using that by (rule context_prompt_Some)
  show "length (context_prompt m (Some ctx)) = 35 + length m + min 2000 (length ctx)"
    if "ctx \<noteq> []"
    using that by (rule context_prompt_length)
  show "length (take 2000 ctx) = 2000" if "2000 < length ctx"
    using that by (rule take_exact)
qed

theorem prompt_truncation_witness:
  "length (concerns_prompt (replicate 4001 (CHR ''x''))) = length (concerns_prompt []) + 4000
   \<and> length (take 4000 (replicate 4001 (CHR ''x''))) = 4000
   \<and> length (simplify_prompt (replicate 3001 (CHR ''x'')) None) =
       length (simplify_prompt [] None) + 3000
   \<and> length (context_prompt ''Why?'' (Some (replicate 2001 (CHR ''x'')))) = 35 + 4 + 2000"
proof -
  note prompt_truncation[where t = "replicate 4001 (CHR ''x'')" and qo = None
      and ctx = "replicate 2001 (CHR ''x'')" and m = "''Why?''"]
  then have "length (concerns_prompt (replicate 4001 (CHR ''x''))) =
        length (concerns_prompt []) + min 4000 (length (replicate 4001 (CHR ''x'')))"
    and "4000 < length (replicate 4001 (CHR ''x'')) \<longrightarrow>
        length (take 4000 (replicate 4001 (CHR ''x''))) = 4000"
    and "length (simplify_prompt (replicate 4001 (CHR ''x'')) None) =
        length (simplify_prompt [] None) + min 3000 (length (replicate 4001 (CHR ''x'')))"
    and "replicate 2001 (CHR ''x'') \<noteq> [] \<longrightarrow>
        length (context_prompt ''Why?'' (Some (replicate 2001 (CHR ''x'')))) =
          35 + length ''Why?'' + min 2000 (length (replicate 2001 (CHR ''x'')))"
    by blast+
  then show ?thesis
    by (simp add: simplify_prompt_def truthy_def)
qed

subsection \<open>The concerns interpreter\<close>

lemma py_in_sublist: "py_in sub t \<longleftrightarrow> sublist sub t"
  by (induction t) (auto simp: sublist_Cons_right)

lemma text_before_prefix: "prefix (text_before m t) t"
  by (induction t) auto

lemma text_before_absent: "\<not> py_in m t \<Longrightarrow> text_before m t = t"
  by (induction t) auto

lemma text_before_free: "m \<noteq> [] \<Longrightarrow> \<not> py_in m (text_before m t)"
proof (induction t)
  case Nil
  then show ?case by simp
next
  case (Cons c cs)
  show ?case
  proof (cases "prefix m (c # cs)")
    case True
    then show ?thesis using Cons.prems by simp
  next
    case False
    have "\<not> prefix m (c # text_before m cs)"
      using False text_before_prefix[of m cs] by (meson Cons_prefix_Cons prefix_order.trans)
    then show ?thesis using False Cons by simp
  qed
qed

lemma text_split:
  "py_in m t \<Longrightarrow> t = text_before m t @ m @ text_after m t"
  by (induction t) (auto simp: prefix_def)

lemma text_before_rest:
  "\<exists>rest. t = text_before m t @ rest \<and> (rest = [] \<or> prefix m rest)"
proof (cases "py_in m t")
  case True
  then show ?thesis using text_split[OF True] by (metis prefixI)
next
  case False
  then show ?thesis by (simp add: text_before_absent)
qed

lemma split_from_shape:
  "m \<noteq> [] \<Longrightarrow>
   split_from m cur t =
     (cur @ text_before m t) # (if py_in m t then split_from m [] (text_after m t) else [])"
proof (induction m cur t rule: split_from.induct)
  case (1 sep cur)
  then show ?case by simp
next
  case (2 sep cur c cs)
  then show ?case by (cases "prefix sep (c # cs)") auto
qed

lemma item0: "py_item (x # xs) 0 = Inr x"
  by (simp add: py_item_def)

lemma item1: "py_item (x # y # ys) 1 = Inr y"
  by (simp add: py_item_def)

lemma split_item0: "m \<noteq> [] \<Longrightarrow> py_item (split_from m [] t) 0 = Inr (text_before m t)"
  by (subst split_from_shape) (simp_all add: item0)

lemma split_item1:
  "m \<noteq> [] \<Longrightarrow> py_in m t \<Longrightarrow>
   py_item (split_from m [] t) 1 = Inr (text_before m (text_after m t))"
proof -
  assume m: "m \<noteq> []" and occ: "py_in m t"
  have "split_from m [] t = text_before m t # split_from m [] (text_after m t)"
    using split_from_shape[OF m, of "[]" t] occ by simp
  moreover have "split_from m [] (text_after m t) =
      text_before m (text_after m t) #
        (if py_in m (text_after m t) then split_from m [] (text_after m (text_after m t)) else [])"
    using split_from_shape[OF m, of "[]" "text_after m t"] by simp
  ultimately show ?thesis
    by (simp add: item1)
qed

lemma dropWhile_keeps: "xs = [] \<or> \<not> P (hd xs) \<Longrightarrow> dropWhile P xs = xs"
  by (cases xs) auto

lemma py_strip_idem: "py_strip (py_strip t) = py_strip t"
proof -
  define a where "a = dropWhile py_isspace t"
  define b where "b = dropWhile py_isspace (rev a)"
  have a: "a = [] \<or> \<not> py_isspace (hd a)"
    unfolding a_def using hd_dropWhile[of py_isspace t] by blast
  have "rev b = [] \<or> \<not> py_isspace (hd (rev b))"
  proof (cases "b = []")
    case True
    then show ?thesis by simp
  next
    case False
    have "suffix b (rev a)"
      unfolding b_def by (rule suffix_dropWhile)
    then obtain zs where "rev a = zs @ b"
      by (auto simp: suffix_def)
    then have "last (rev a) = last b"
      using False by simp
    moreover have "a \<noteq> []"
      using False b_def by auto
    ultimately have "hd a = last b"
      by (simp add: last_rev)
    then show ?thesis
      using a \<open>a \<noteq> []\<close> False by (simp add: hd_rev)
  qed
  then have "dropWhile py_isspace (rev b) = rev b"
    by (rule dropWhile_keeps)
  moreover have "dropWhile py_isspace b = b"
    unfolding b_def by (rule dropWhile_idem)
  ultimately show ?thesis
    by (simp add: py_strip_def a_def[symmetric] b_def[symmetric])
qed

lemma fenced_region_eq:
  \<open>fenced_region raw = Inr (py_strip (concerns_region (py_strip raw)))\<close>
  by (simp add: fenced_region_def concerns_region_def fence_interior_def Let_def py_split_def
      and_then_def split_item0 split_item1 text_before_absent text_before_free py_strip_idem)


lemma fence_interior_split:
  assumes "prefix ''```'' opening" and "py_in opening t"
  shows "\<exists>post. t = text_before opening t @ opening @ fence_interior opening t @ post
           \<and> (post = [] \<or> prefix ''```'' post)"
proof -
  obtain r1 where r1: "text_after opening t = text_before opening (text_after opening t) @ r1"
      "r1 = [] \<or> prefix opening r1"
    using text_before_rest by blast
  obtain r2 where r2: "text_before opening (text_after opening t) = fence_interior opening t @ r2"
      "r2 = [] \<or> prefix ''```'' r2"
    unfolding fence_interior_def using text_before_rest by blast
  have "t = text_before opening t @ opening @ fence_interior opening t @ (r2 @ r1)"
    using text_split[OF assms(2)] r1(1) r2(1) by simp
  moreover have "r2 @ r1 = [] \<or> prefix ''```'' (r2 @ r1)"
    using r1(2) r2(2) assms(1) by (metis append_Nil prefix_order.trans prefix_prefix)
  ultimately show ?thesis by blast
qed

lemma sublist_char_split:
  assumes "c \<notin> set m"
  shows "sublist m (xs @ c # ys) \<longleftrightarrow> sublist m xs \<or> sublist m ys"
proof
  assume "sublist m (xs @ c # ys)"
  then obtain ps ss where eq: "xs @ c # ys = ps @ m @ ss"
    by (auto simp: sublist_def)
  then consider us where "xs = ps @ us" "us @ c # ys = m @ ss"
    | us where "xs @ us = ps" "c # ys = us @ m @ ss"
    by (auto simp: append_eq_append_conv2)
  then show "sublist m xs \<or> sublist m ys"
  proof cases
    case 1
    from 1(2) consider vs where "us = m @ vs" | vs where "us @ vs = m" "c # ys = vs @ ss"
      by (auto simp: append_eq_append_conv2)
    then show ?thesis
    proof cases
      case 1
      then have "xs = ps @ m @ vs" using \<open>xs = ps @ us\<close> by simp
      then show ?thesis unfolding sublist_def by blast
    next
      case 2
      show ?thesis
      proof (cases vs)
        case Nil
        then have "xs = ps @ m @ []" using 2 \<open>xs = ps @ us\<close> by simp
        then show ?thesis unfolding sublist_def by blast
      next
        case (Cons v vs')
        then have "c \<in> set m" using 2 by auto
        then show ?thesis using assms by simp
      qed
    qed
  next
    case 2
    show ?thesis
    proof (cases us)
      case Nil
      then have "c # ys = m @ ss" using 2 by simp
      then have "m = []" using assms by (cases m) auto
      then show ?thesis by simp
    next
      case (Cons u us')
      then have "ys = us' @ m @ ss" using 2 by simp
      then show ?thesis unfolding sublist_def by blast
    qed
  qed
next
  assume "sublist m xs \<or> sublist m ys"
  then show "sublist m (xs @ c # ys)"
  proof
    assume "sublist m xs"
    then obtain ps ss where "xs = ps @ m @ ss" by (auto simp: sublist_def)
    then have "xs @ c # ys = ps @ m @ (ss @ c # ys)" by simp
    then show ?thesis unfolding sublist_def by blast
  next
    assume "sublist m ys"
    then obtain ps ss where "ys = ps @ m @ ss" by (auto simp: sublist_def)
    then have "xs @ c # ys = (xs @ c # ps) @ m @ ss" by simp
    then show ?thesis unfolding sublist_def by blast
  qed
qed

lemma py_in_char_split:
  "c \<notin> set m \<Longrightarrow> py_in m (xs @ c # ys) \<longleftrightarrow> py_in m xs \<or> py_in m ys"
  by (simp add: py_in_sublist sublist_char_split)

lemma py_in_mono: "py_in m small \<Longrightarrow> sublist small big \<Longrightarrow> py_in m big"
  unfolding py_in_sublist by (rule sublist_order.order.trans)

lemma py_strip_sublist: "sublist (py_strip t) t"
proof -
  have "sublist (rev (dropWhile py_isspace (rev (dropWhile py_isspace t)))) (dropWhile py_isspace t)"
    by (simp add: sublist_rev_left)
  then show ?thesis
    unfolding py_strip_def using sublist_dropWhile sublist_order.order.trans by blast
qed

lemma py_strip_leading: "py_isspace c \<Longrightarrow> py_strip (c # t) = py_strip t"
  by (simp add: py_strip_def)

lemma py_strip_trailing: "py_isspace c \<Longrightarrow> py_strip (t @ [c]) = py_strip t"
proof (cases "\<forall>x \<in> set t. py_isspace x")
  case True
  assume "py_isspace c"
  then have "\<forall>x \<in> set (t @ [c]). py_isspace x"
    using True by auto
  then have d1: "dropWhile py_isspace (t @ [c]) = []"
    using dropWhile_eq_Nil_conv by blast
  have d2: "dropWhile py_isspace t = []"
    using True dropWhile_eq_Nil_conv by blast
  have "py_strip (t @ [c]) = []"
    unfolding py_strip_def d1 by simp
  moreover have "py_strip t = []"
    unfolding py_strip_def d2 by simp
  ultimately show ?thesis
    by (simp only:)
next
  case False
  assume c: "py_isspace c"
  from False obtain x where "x \<in> set t" "\<not> py_isspace x" by blast
  then have "dropWhile py_isspace (t @ [c]) = dropWhile py_isspace t @ [c]"
    by (rule dropWhile_append1)
  then show ?thesis using c by (simp add: py_strip_def)
qed

lemma text_before_at_marker:
  "m \<noteq> [] \<Longrightarrow> \<not> py_in m (xs @ butlast m) \<Longrightarrow> text_before m (xs @ m @ rest) = xs"
proof (induction xs)
  case Nil
  then show ?case by (cases m) simp_all
next
  case (Cons x xs)
  have "\<not> prefix m (x # xs @ m @ rest)"
  proof
    assume p: "prefix m (x # xs @ m @ rest)"
    have "prefix (x # xs @ butlast m) (x # xs @ m @ rest)"
      by (metis Cons_prefix_Cons append_butlast_last_id Cons.prems(1) append.assoc prefixI
          same_prefix_prefix)
    moreover have "length m \<le> length (x # xs @ butlast m)"
      by simp
    ultimately have "prefix m (x # xs @ butlast m)"
      using p prefix_length_prefix by blast
    then show False
      using Cons.prems(2) by simp
  qed
  moreover have "\<not> py_in m (xs @ butlast m)"
    using Cons.prems(2) by simp
  ultimately show ?case
    using Cons.IH Cons.prems(1) by simp
qed

lemma wrapped_json_region:
  assumes \<open>\<not> py_in ''```'' j\<close>
  shows \<open>py_strip (concerns_region (py_strip (''```json\<newline>'' @ j @ ''\<newline>```''))) =
         py_strip (concerns_region (py_strip j))\<close>
proof -
  let ?raw = \<open>''```json\<newline>'' @ j @ ''\<newline>```''\<close>
  have nojson: \<open>\<not> py_in ''```json'' j\<close>
  proof
    assume \<open>py_in ''```json'' j\<close>
    moreover have \<open>py_in ''```'' ''```json''\<close> by simp
    ultimately have \<open>py_in ''```'' j\<close>
      unfolding py_in_sublist by (rule sublist_order.order.trans[rotated])
    then show False using assms by simp
  qed
  have strip_raw: "py_strip ?raw = ?raw"
    by (simp add: py_strip_def py_isspace_def)
  have has: \<open>py_in ''```json'' ?raw\<close>
    by simp
  have after: \<open>text_after ''```json'' ?raw = ''\<newline>'' @ j @ ''\<newline>```''\<close>
    by simp
  have \<open>\<not> py_in ''```json'' (''\<newline>'' @ j @ ''\<newline>```'')\<close>
    using py_in_char_split[of \<open>CHR ''\<newline>''\<close> \<open>''```json''\<close> \<open>[]\<close> \<open>j @ ''\<newline>```''\<close>]
      py_in_char_split[of \<open>CHR ''\<newline>''\<close> \<open>''```json''\<close> j \<open>''```''\<close>] nojson
    by simp
  then have before: \<open>text_before ''```json'' (''\<newline>'' @ j @ ''\<newline>```'') = ''\<newline>'' @ j @ ''\<newline>```''\<close>
    by (rule text_before_absent)
  have \<open>\<not> py_in ''```'' ((''\<newline>'' @ j @ ''\<newline>'') @ butlast ''```'')\<close>
    using py_in_char_split[of \<open>CHR ''\<newline>''\<close> \<open>''```''\<close> \<open>[]\<close> \<open>j @ ''\<newline>``''\<close>]
      py_in_char_split[of \<open>CHR ''\<newline>''\<close> \<open>''```''\<close> j \<open>''``''\<close>] assms
    by simp
  then have \<open>text_before ''```'' ((''\<newline>'' @ j @ ''\<newline>'') @ ''```'' @ []) = ''\<newline>'' @ j @ ''\<newline>''\<close>
    by (intro text_before_at_marker) simp_all
  then have interior: \<open>fence_interior ''```json'' ?raw = ''\<newline>'' @ j @ ''\<newline>''\<close>
    unfolding fence_interior_def after before by simp
  have left: \<open>py_strip (concerns_region (py_strip ?raw)) = py_strip j\<close>
    unfolding strip_raw concerns_region_def using has interior
      py_strip_leading[of \<open>CHR ''\<newline>''\<close> \<open>j @ ''\<newline>''\<close>] py_strip_trailing[of \<open>CHR ''\<newline>''\<close> j]
    by (simp add: py_isspace_def)
  have \<open>\<not> py_in ''```'' (py_strip j)\<close>
    using assms py_in_mono py_strip_sublist by blast
  moreover have \<open>\<not> py_in ''```json'' (py_strip j)\<close>
    using nojson py_in_mono py_strip_sublist by blast
  ultimately have right: \<open>py_strip (concerns_region (py_strip j)) = py_strip j\<close>
    by (simp add: concerns_region_def py_strip_idem)
  show ?thesis
    using left right by simp
qed


lemma json_marker_needs_fence: \<open>py_in ''```json'' t \<Longrightarrow> py_in ''```'' t\<close>
proof -
  assume \<open>py_in ''```json'' t\<close>
  moreover have \<open>py_in ''```'' ''```json''\<close> by simp
  ultimately show ?thesis
    unfolding py_in_sublist by (rule sublist_order.order.trans[rotated])
qed

lemma interpret_concerns_eq:
  "interpret_concerns loads raw = loads (py_strip (concerns_region (py_strip raw)))"
  by (simp add: interpret_concerns_def fenced_region_eq and_then_def)

lemma highlight_result:
  "cl (concerns_request legal) = Inr raw \<Longrightarrow>
   fst (highlight_concerning_clauses cl loads legal s) =
     parsed_or_empty (loads (py_strip (concerns_region (py_strip raw))))"
  by (simp add: highlight_ok interpret_concerns_eq parsed_or_empty_def)

lemma region_shape:
  assumes \<open>prefix ''```'' opening\<close> and "opening \<noteq> []" and "py_in opening t"
  shows \<open>(\<exists>post. t = text_before opening t @ opening @ fence_interior opening t @ post
            \<and> (post = [] \<or> prefix ''```'' post))
         \<and> \<not> py_in opening (text_before opening t)
         \<and> \<not> py_in ''```'' (fence_interior opening t)\<close>
  using fence_interior_split[OF assms(1,3)] text_before_free[OF assms(2), of t]
    text_before_free[of \<open>''```''\<close> "text_before opening (text_after opening t)"]
  by (simp add: fence_interior_def)

text \<open>
  Claim C2, as amended. The concerns interpreter trims the model text of leading and trailing
  whitespace and selects a region of the trimmed text: when the marker of a block labelled
  json occurs, the text that follows its first occurrence up to a closing fence (or the end),
  free of fences; otherwise, when a fence occurs, the same for the first fence; otherwise
  the whole trimmed text. The region, trimmed again, goes to \<^verbatim>\<open>json.loads\<close>; the task
  returns the parsed value, and the empty list when parsing raises. No step of the
  extraction raises. A text that contains no fence marker, wrapped as a block labelled json,
  gives the same result as the text itself.
\<close>

theorem concerns_interpreter:
  \<open>fenced_region raw = Inr (py_strip (concerns_region (py_strip raw)))
   \<and> interpret_concerns loads raw = loads (py_strip (concerns_region (py_strip raw)))
   \<and> (cl (concerns_request legal) = Inr raw \<longrightarrow>
        fst (highlight_concerning_clauses cl loads legal s) =
          parsed_or_empty (loads (py_strip (concerns_region (py_strip raw)))))
   \<and> parsed_or_empty (Inr v) = v
   \<and> parsed_or_empty (Inl e :: py_exn + 'f json) = JList []
   \<and> (py_in ''```json'' t \<longrightarrow>
        (\<exists>post. t = text_before ''```json'' t @ ''```json'' @ concerns_region t @ post
           \<and> (post = [] \<or> prefix ''```'' post))
        \<and> \<not> py_in ''```json'' (text_before ''```json'' t)
        \<and> \<not> py_in ''```'' (concerns_region t))
   \<and> (\<not> py_in ''```json'' t \<and> py_in ''```'' t \<longrightarrow>
        (\<exists>post. t = text_before ''```'' t @ ''```'' @ concerns_region t @ post
           \<and> (post = [] \<or> prefix ''```'' post))
        \<and> \<not> py_in ''```'' (text_before ''```'' t)
        \<and> \<not> py_in ''```'' (concerns_region t))
   \<and> (\<not> py_in ''```'' t \<longrightarrow> concerns_region t = t)
   \<and> (\<not> py_in ''```'' j \<longrightarrow>
        interpret_concerns loads (''```json\<newline>'' @ j @ ''\<newline>```'') = interpret_concerns loads j)\<close>
proof (intro conjI impI)
  show \<open>fenced_region raw = Inr (py_strip (concerns_region (py_strip raw)))\<close>
    by (rule fenced_region_eq)
  show \<open>interpret_concerns loads raw = loads (py_strip (concerns_region (py_strip raw)))\<close>
    by (rule interpret_concerns_eq)
  show \<open>fst (highlight_concerning_clauses cl loads legal s) =
          parsed_or_empty (loads (py_strip (concerns_region (py_strip raw))))\<close>
    if \<open>cl (concerns_request legal) = Inr raw\<close>
    using that by (rule highlight_result)
  show \<open>parsed_or_empty (Inr v) = v\<close>
    by (simp add: parsed_or_empty_def)
  show \<open>parsed_or_empty (Inl e :: py_exn + 'f json) = JList []\<close>
    by (simp add: parsed_or_empty_def)
  show \<open>concerns_region t = t\<close> if \<open>\<not> py_in ''```'' t\<close>
    using that json_marker_needs_fence[of t] by (auto simp: concerns_region_def)
  show \<open>interpret_concerns loads (''```json\<newline>'' @ j @ ''\<newline>```'') = interpret_concerns loads j\<close>
    if \<open>\<not> py_in ''```'' j\<close>
    unfolding interpret_concerns_eq using wrapped_json_region[OF that] by simp
next
  assume a: \<open>py_in ''```json'' t\<close>
  have r: \<open>concerns_region t = fence_interior ''```json'' t\<close>
    using a by (simp add: concerns_region_def)
  note region_shape[of \<open>''```json''\<close> t, OF _ _ a]
  then show \<open>\<exists>post. t = text_before ''```json'' t @ ''```json'' @ concerns_region t @ post
           \<and> (post = [] \<or> prefix ''```'' post)\<close>
    and \<open>\<not> py_in ''```json'' (text_before ''```json'' t)\<close>
    and \<open>\<not> py_in ''```'' (concerns_region t)\<close>
    unfolding r by simp_all
next
  assume a: \<open>\<not> py_in ''```json'' t \<and> py_in ''```'' t\<close>
  have r: \<open>concerns_region t = fence_interior ''```'' t\<close>
    using a by (simp add: concerns_region_def)
  note region_shape[of \<open>''```''\<close> t]
  then show \<open>\<exists>post. t = text_before ''```'' t @ ''```'' @ concerns_region t @ post
           \<and> (post = [] \<or> prefix ''```'' post)\<close>
    and \<open>\<not> py_in ''```'' (text_before ''```'' t)\<close>
    and \<open>\<not> py_in ''```'' (concerns_region t)\<close>
    unfolding r using a by simp_all
qed


theorem concerns_interpreter_witness:
  \<open>fst (highlight_concerning_clauses (\<lambda>r. Inr ''```json\<newline>[1]\<newline>```'')
          (\<lambda>t. if t = ''[1]'' then Inr (JList [JInt 1]) else Inl ''Expecting value'')
          ''Tenant shall pay.'' initial) = (JList [JInt 1] :: unit json)
   \<and> interpret_concerns
         (\<lambda>t. if t = ''[1]'' then Inr (JList [JInt 1 :: unit json]) else Inl ''Expecting value'')
         (''```json\<newline>'' @ ''[1]'' @ ''\<newline>```'') = Inr (JList [JInt 1])\<close>
proof -
  let ?loads = \<open>\<lambda>t. if t = ''[1]'' then Inr (JList [JInt 1 :: unit json]) else Inl ''Expecting value''\<close>
  have region: \<open>py_strip (concerns_region (py_strip ''```json\<newline>[1]\<newline>```'')) = ''[1]''\<close>
    by code_simp
  have bare: \<open>py_strip (concerns_region (py_strip ''[1]'')) = ''[1]''\<close>
    by code_simp
  have unfenced: \<open>\<not> py_in ''```'' ''[1]''\<close>
    by simp
  note concerns_interpreter[where raw = \<open>''```json\<newline>[1]\<newline>```''\<close> and loads = ?loads
      and cl = \<open>\<lambda>r. Inr ''```json\<newline>[1]\<newline>```''\<close> and legal = \<open>''Tenant shall pay.''\<close>
      and s = initial and j = \<open>''[1]''\<close>]
  then have \<open>fst (highlight_concerning_clauses (\<lambda>r. Inr ''```json\<newline>[1]\<newline>```'') ?loads
          ''Tenant shall pay.'' initial) =
        parsed_or_empty (?loads (py_strip (concerns_region (py_strip ''```json\<newline>[1]\<newline>```''))))\<close>
    and \<open>interpret_concerns ?loads (''```json\<newline>'' @ ''[1]'' @ ''\<newline>```'') =
         interpret_concerns ?loads ''[1]''\<close>
    and \<open>interpret_concerns ?loads ''[1]'' = ?loads (py_strip (concerns_region (py_strip ''[1]'')))\<close>
    using unfenced concerns_interpreter[where raw = \<open>''[1]''\<close> and loads = ?loads] by blast+
  then show ?thesis
    unfolding region bare by (simp add: parsed_or_empty_def)
qed

text \<open>
  The claim as stated fails in two places. The region parsed is not the text as it is: for
  a no-break space, \<open>[1]\<close> and a form feed the code parses \<open>[1]\<close> and returns the list,
  while a parser that accepts only JSON whitespace rejects the text as it is. And wrapping
  does not preserve the result for every JSON text: for the array holding the one string
  \<open>```[2]```\<close> the bare text yields the parse of \<open>[2]\<close>, the wrapped text a parse failure.
\<close>

theorem concerns_as_is_counterexample:
  \<open>fenced_region ([CHR 0xA0] @ ''[1]'' @ [CHR 0x0C]) = Inr ''[1]''
   \<and> fst (highlight_concerning_clauses (\<lambda>r. Inr ([CHR 0xA0] @ ''[1]'' @ [CHR 0x0C]))
          (\<lambda>t. if t = ''[1]'' then Inr (JList [JInt 1]) else Inl ''Expecting value'')
          ''Tenant shall pay.'' initial) = (JList [JInt 1] :: unit json)
   \<and> parsed_or_empty
         ((\<lambda>t. if t = ''[1]'' then Inr (JList [JInt 1]) else Inl ''Expecting value'')
            ([CHR 0xA0] @ ''[1]'' @ [CHR 0x0C])) = (JList [] :: unit json)
   \<and> interpret_concerns
         (\<lambda>t. if t = ''[2]'' then Inr (JList [JInt 2])
              else if t = ''["```[2]```"]'' then Inr (JList [JStr ''```[2]```''])
              else Inl ''Expecting value'')
         ''["```[2]```"]'' = Inr (JList [JInt 2 :: unit json])
   \<and> interpret_concerns
         (\<lambda>t. if t = ''[2]'' then Inr (JList [JInt 2 :: unit json])
              else if t = ''["```[2]```"]'' then Inr (JList [JStr ''```[2]```''])
              else Inl ''Expecting value'')
         (''```json\<newline>'' @ ''["```[2]```"]'' @ ''\<newline>```'') = Inl ''Expecting value''\<close>
proof (intro conjI)
  show r: \<open>fenced_region ([CHR 0xA0] @ ''[1]'' @ [CHR 0x0C]) = Inr ''[1]''\<close>
    by code_simp
  show \<open>fst (highlight_concerning_clauses (\<lambda>r. Inr ([CHR 0xA0] @ ''[1]'' @ [CHR 0x0C]))
          (\<lambda>t. if t = ''[1]'' then Inr (JList [JInt 1]) else Inl ''Expecting value'')
          ''Tenant shall pay.'' initial) = (JList [JInt 1] :: unit json)\<close>
    using r by (simp add: highlight_ok interpret_concerns_def and_then_def)
  show \<open>parsed_or_empty
         ((\<lambda>t. if t = ''[1]'' then Inr (JList [JInt 1]) else Inl ''Expecting value'')
            ([CHR 0xA0] @ ''[1]'' @ [CHR 0x0C])) = (JList [] :: unit json)\<close>
    by (simp add: parsed_or_empty_def)
  have bare: \<open>fenced_region ''["```[2]```"]'' = Inr ''[2]''\<close>
    by code_simp
  have wrapped: \<open>fenced_region (''```json\<newline>'' @ ''["```[2]```"]'' @ ''\<newline>```'') = Inr ''["''\<close>
    by code_simp
  show \<open>interpret_concerns
         (\<lambda>t. if t = ''[2]'' then Inr (JList [JInt 2])
              else if t = ''["```[2]```"]'' then Inr (JList [JStr ''```[2]```''])
              else Inl ''Expecting value'')
         ''["```[2]```"]'' = Inr (JList [JInt 2 :: unit json])\<close>
    by (simp add: interpret_concerns_def bare and_then_def)
  show \<open>interpret_concerns
         (\<lambda>t. if t = ''[2]'' then Inr (JList [JInt 2 :: unit json])
              else if t = ''["```[2]```"]'' then Inr (JList [JStr ''```[2]```''])
              else Inl ''Expecting value'')
         (''```json\<newline>'' @ ''["```[2]```"]'' @ ''\<newline>```'') = Inl ''Expecting value''\<close>
    unfolding interpret_concerns_def wrapped by (simp add: and_then_def)
qed

end
